theory Spec2Isabelle
  imports Main
begin

section \<open>Strings\<close>

text \<open>
  Model, app and field names are identifiers; they are modelled as ASCII strings.
  \<open>lower\<close> is \<^verbatim>\<open>str.lower()\<close> on such strings: the letters A..Z (codes 65..90) move
  to a..z, every other character stays.
\<close>

definition lower_char :: "char \<Rightarrow> char" where
  "lower_char c =
     (let n = (of_char c :: nat) in if 65 \<le> n \<and> n \<le> 90 then char_of (n + 32) else c)"

definition lower :: "string \<Rightarrow> string" where
  "lower s = map lower_char s"

section \<open>The registry snapshot\<close>

text \<open>
  The model registry belongs to the framework. The code reads from it:
  \<^verbatim>\<open>get_model(app, name)\<close>, \<^verbatim>\<open>get_models()\<close>, and for a model class its
  \<^verbatim>\<open>_meta.object_name\<close>, \<^verbatim>\<open>_meta.app_label\<close>, \<^verbatim>\<open>_meta.fields\<close> and
  \<^verbatim>\<open>_meta.many_to_many\<close>; for a field its \<^verbatim>\<open>name\<close>, \<^verbatim>\<open>is_relation\<close>,
  \<^verbatim>\<open>related_model\<close> and \<^verbatim>\<open>null\<close>; for a many-to-many field also
  \<^verbatim>\<open>remote_field.through\<close> with its \<^verbatim>\<open>_meta.auto_created\<close>, \<^verbatim>\<open>_meta.fields\<close>,
  \<^verbatim>\<open>_meta.object_name\<close> and \<^verbatim>\<open>_meta.app_label\<close>.
  A model class is identified by the pair (app label, object name); the comparison
  \<^verbatim>\<open>field.related_model == parent_model_obj\<close> is equality of these pairs.
\<close>

type_synonym model_id = "string \<times> string"

record field =
  f_name :: string
  f_is_relation :: bool
  f_related_model :: "model_id option"
  f_null :: bool

record through_meta =
  th_object_name :: string
  th_app_label :: string
  th_auto_created :: bool
  th_fields :: "field list"

record m2m_field =
  m_name :: string
  m_related_model :: model_id
  m_through :: through_meta

record model =
  mo_object_name :: string
  mo_app_label :: string
  mo_fields :: "field list"
  mo_many_to_many :: "m2m_field list"

record registry =
  get_model :: "string \<Rightarrow> string \<Rightarrow> model option"
  get_models :: "model list"

definition model_ident :: "model \<Rightarrow> model_id" where
  "model_ident m = (mo_app_label m, mo_object_name m)"

section \<open>Errors\<close>

text \<open>
  The text of the \<^verbatim>\<open>ValueError\<close> raised for implicit many-to-many relations is a fixed
  template; the model keeps the values the template is filled with, in the order the
  message lists them: the parent model, the numbered relations, one generated
  through-model definition and one migration recipe per key of the two dictionaries.
\<close>

record model_code =
  mc_through_model_name :: string
  mc_source_model :: string
  mc_source_app :: string
  mc_target_model :: string
  mc_target_app :: string

record migration_hint =
  mh_through_model_name :: string
  mh_source_app :: string
  mh_source_model :: string
  mh_target_app :: string
  mh_target_model :: string
  mh_automatic_table_name :: string
  mh_field_name :: string

record error_message =
  em_parent_model :: string
  em_relations :: "(nat \<times> string \<times> string \<times> string) list"
  em_through_models :: "(string \<times> model_code) list"
  em_migration_files :: "(string \<times> migration_hint) list"

datatype py_error =
    LookupError
  | ValueError error_message
  | NameError
  | AttributeError
  | FieldDoesNotExist
  | DoesNotExist
  | MultipleObjectsReturned

section \<open>find_related_models\<close>

text \<open>The dictionaries appended to the three result lists.\<close>

record child_entry =
  ce_model :: string
  ce_app_name :: "string option"
  ce_fk_field :: string

record implicit_entry =
  ie_model :: string
  ie_app_name :: string
  ie_field_name :: string
  ie_related :: "(string \<times> string) option"

record through_entry =
  te_model :: string
  te_app_name :: "string option"
  te_field_name :: string

text \<open>\<^verbatim>\<open>for field in model._meta.fields\<close>: the foreign keys of \<open>m\<close> to the parent.\<close>

fun scan_fields :: "model_id \<Rightarrow> model \<Rightarrow> field list \<Rightarrow> child_entry list \<Rightarrow> child_entry list" where
  "scan_fields parent m [] fk_models = fk_models"
| "scan_fields parent m (f # fs) fk_models =
     scan_fields parent m fs
       (if f_is_relation f \<and> f_related_model f = Some parent
        then fk_models @ [\<lparr>ce_model = mo_object_name m, ce_app_name = Some (mo_app_label m),
                           ce_fk_field = f_name f\<rparr>]
        else fk_models)"

text \<open>\<^verbatim>\<open>for through_field in through_model._meta.fields\<close> of an explicit through model
  reached from another model's many-to-many field.\<close>

fun scan_through_fields ::
  "model_id \<Rightarrow> through_meta \<Rightarrow> field list \<Rightarrow> through_entry list \<Rightarrow> through_entry list" where
  "scan_through_fields parent th [] through_models = through_models"
| "scan_through_fields parent th (tf # tfs) through_models =
     scan_through_fields parent th tfs
       (if f_is_relation tf \<and> f_related_model tf = Some parent
        then through_models @ [\<lparr>te_model = th_object_name th, te_app_name = Some (th_app_label th),
                                 te_field_name = f_name tf\<rparr>]
        else through_models)"

text \<open>\<^verbatim>\<open>for field in model._meta.many_to_many\<close>.\<close>

fun scan_many_to_many ::
  "model_id \<Rightarrow> model \<Rightarrow> m2m_field list \<Rightarrow> implicit_entry list \<times> through_entry list
    \<Rightarrow> implicit_entry list \<times> through_entry list" where
  "scan_many_to_many parent m [] acc = acc"
| "scan_many_to_many parent m (f # fs) (implicit_m2m, through_models) =
     scan_many_to_many parent m fs
       (if m_related_model f = parent then
          (if th_auto_created (m_through f)
           then (implicit_m2m @ [\<lparr>ie_model = mo_object_name m, ie_app_name = mo_app_label m,
                                   ie_field_name = m_name f, ie_related = None\<rparr>],
                 through_models)
           else (implicit_m2m,
                 scan_through_fields parent (m_through f) (th_fields (m_through f)) through_models))
        else (implicit_m2m, through_models))"

text \<open>\<^verbatim>\<open>for model in apps_registry.get_models()\<close>.\<close>

fun scan_models ::
  "model_id \<Rightarrow> model list \<Rightarrow> child_entry list \<times> implicit_entry list \<times> through_entry list
    \<Rightarrow> child_entry list \<times> implicit_entry list \<times> through_entry list" where
  "scan_models parent [] acc = acc"
| "scan_models parent (m # ms) (fk_models, implicit_m2m, through_models) =
     (let fk_models' = scan_fields parent m (mo_fields m) fk_models;
          (implicit_m2m', through_models') =
             scan_many_to_many parent m (mo_many_to_many m) (implicit_m2m, through_models)
      in scan_models parent ms (fk_models', implicit_m2m', through_models'))"

text \<open>The two nested loops over the fields of an explicit through model declared on the
  parent itself: \<^verbatim>\<open>for other_field in through_model._meta.fields\<close> inside
  \<^verbatim>\<open>for through_field in through_model._meta.fields\<close>.\<close>

fun scan_other_fields ::
  "model_id \<Rightarrow> through_meta \<Rightarrow> field \<Rightarrow> field list \<Rightarrow> through_entry list \<Rightarrow> through_entry list" where
  "scan_other_fields parent th tf [] through_models = through_models"
| "scan_other_fields parent th tf (other # others) through_models =
     scan_other_fields parent th tf others
       (if f_is_relation other \<and> f_related_model other = Some parent \<and> f_name other \<noteq> f_name tf
        then through_models @ [\<lparr>te_model = th_object_name th, te_app_name = Some (th_app_label th),
                                 te_field_name = f_name other\<rparr>]
        else through_models)"

fun scan_own_through_fields ::
  "model_id \<Rightarrow> through_meta \<Rightarrow> field list \<Rightarrow> through_entry list \<Rightarrow> through_entry list" where
  "scan_own_through_fields parent th [] through_models = through_models"
| "scan_own_through_fields parent th (tf # tfs) through_models =
     scan_own_through_fields parent th tfs
       (if f_is_relation tf \<and> f_related_model tf \<noteq> Some parent
        then scan_other_fields parent th tf (th_fields th) through_models
        else through_models)"

text \<open>\<^verbatim>\<open>for field in parent_model_obj._meta.many_to_many\<close>; the entries take the caller's
  \<^verbatim>\<open>parent_model\<close> and \<^verbatim>\<open>app_name\<close> strings.\<close>

fun scan_parent_many_to_many ::
  "model_id \<Rightarrow> string \<Rightarrow> string \<Rightarrow> m2m_field list \<Rightarrow> implicit_entry list \<times> through_entry list
    \<Rightarrow> implicit_entry list \<times> through_entry list" where
  "scan_parent_many_to_many parent parent_model app_name [] acc = acc"
| "scan_parent_many_to_many parent parent_model app_name (f # fs) (implicit_m2m, through_models) =
     scan_parent_many_to_many parent parent_model app_name fs
       (if th_auto_created (m_through f)
        then (implicit_m2m @ [\<lparr>ie_model = parent_model, ie_app_name = app_name,
                                ie_field_name = m_name f,
                                ie_related = Some (snd (m_related_model f), fst (m_related_model f))\<rparr>],
              through_models)
        else (implicit_m2m,
              scan_own_through_fields parent (m_through f) (th_fields (m_through f)) through_models))"

definition find_related_models ::
  "registry \<Rightarrow> string \<Rightarrow> string
    \<Rightarrow> py_error + (child_entry list \<times> implicit_entry list \<times> through_entry list)" where
  "find_related_models apps_registry app_name parent_model =
     (case get_model apps_registry app_name parent_model of
        None \<Rightarrow> Inl LookupError
      | Some parent_model_obj \<Rightarrow>
          (let parent = model_ident parent_model_obj;
               (fk_models, implicit_m2m, through_models) =
                  scan_models parent (get_models apps_registry) ([], [], []);
               (implicit_m2m', through_models') =
                  scan_parent_many_to_many parent parent_model app_name
                    (mo_many_to_many parent_model_obj) (implicit_m2m, through_models)
           in Inr (fk_models, implicit_m2m', through_models')))"

section \<open>generate_through_model_code\<close>

text \<open>\<^verbatim>\<open>d[k] = v\<close> on a dictionary, which keeps insertion order: an existing key keeps its
  place and takes the new value, a new key goes to the end.\<close>

fun dict_set :: "'k \<Rightarrow> 'v \<Rightarrow> ('k \<times> 'v) list \<Rightarrow> ('k \<times> 'v) list" where
  "dict_set k v [] = [(k, v)]"
| "dict_set k v ((k', v') # d) = (if k' = k then (k, v) # d else (k', v') # dict_set k v d)"

text \<open>The body of \<^verbatim>\<open>for m2m in implicit_m2m\<close>: the key and the two values stored for one
  relation. \<^verbatim>\<open>m2m.get('related_model', source_model)\<close> is the \<open>case\<close> on \<open>ie_related\<close>
  with the default.\<close>

definition through_model_for :: "implicit_entry \<Rightarrow> string \<times> model_code \<times> migration_hint" where
  "through_model_for m2m =
     (let source_model = ie_model m2m;
          source_app = ie_app_name m2m;
          field_name = ie_field_name m2m;
          (target_model, target_app, source_model, source_app) =
             (case ie_related m2m of
                Some (related_model, related_app) \<Rightarrow>
                  (related_model, related_app, source_model, source_app)
              | None \<Rightarrow>
                  (ie_model m2m, ie_app_name m2m,
                   (case ie_related m2m of Some r \<Rightarrow> fst r | None \<Rightarrow> source_model),
                   (case ie_related m2m of Some r \<Rightarrow> snd r | None \<Rightarrow> source_app)));
          through_model_name = source_model @ target_model @ ''Through'';
          automatic_table_name =
             lower source_app @ ''_'' @ lower source_model @ ''_'' @ lower field_name
      in (through_model_name,
          \<lparr>mc_through_model_name = through_model_name, mc_source_model = source_model,
           mc_source_app = source_app, mc_target_model = target_model,
           mc_target_app = target_app\<rparr>,
          \<lparr>mh_through_model_name = through_model_name, mh_source_app = source_app,
           mh_source_model = source_model, mh_target_app = target_app,
           mh_target_model = target_model, mh_automatic_table_name = automatic_table_name,
           mh_field_name = field_name\<rparr>))"

fun generate_loop ::
  "implicit_entry list \<Rightarrow> (string \<times> model_code) list \<times> (string \<times> migration_hint) list
    \<Rightarrow> (string \<times> model_code) list \<times> (string \<times> migration_hint) list" where
  "generate_loop [] acc = acc"
| "generate_loop (m2m # rest) (through_models_code, migration_hints) =
     (let (through_model_name, code, hint) = through_model_for m2m
      in generate_loop rest
           (dict_set through_model_name code through_models_code,
            dict_set through_model_name hint migration_hints))"

definition generate_through_model_code ::
  "implicit_entry list \<Rightarrow> (string \<times> model_code) list \<times> (string \<times> migration_hint) list" where
  "generate_through_model_code implicit_m2m = generate_loop implicit_m2m ([], [])"

section \<open>create_uuid_migration\<close>

datatype field_def =
    UUIDField_null
  | UUIDField_default
  | UUIDField_primary_key
  | ForeignKey string

text \<open>
  The three \<^verbatim>\<open>lambda apps, schema_editor: ...\<close> expressions of the function. A lambda
  does not copy the variables it mentions: it reads them from the enclosing call's
  variables when it is run. \<open>cells\<close> holds those variables (\<open>None\<close>: not yet assigned);
  all lambdas of one call share them, and the returned migration keeps them alive.
\<close>

datatype closure =
    Lambda_generate_uuid
  | Lambda_update_through
  | Lambda_update_child

datatype operation =
    AddField string string field_def
  | RunPython closure
  | AlterField string string field_def
  | RemoveField string string
  | RenameField string string string

record cells =
  v_parent_model :: string
  v_app_name :: string
  v_pk_field :: string
  v_through_model :: "string option"
  v_field_name :: "string option"
  v_through_app :: "string option"
  v_child_model :: "string option"
  v_fk_field :: "string option"
  v_child_app :: "string option"

text \<open>What running an emitted lambda calls: the function and its arguments after
  \<^verbatim>\<open>apps, schema_editor\<close>, in the order of the two signatures.\<close>

datatype py_call =
    Generate_uuid_for_model string string string
  | Update_foreign_keys string string string string string string

fun call_lambda :: "cells \<Rightarrow> closure \<Rightarrow> py_error + py_call" where
  "call_lambda cs Lambda_generate_uuid =
     Inr (Generate_uuid_for_model (v_parent_model cs) (v_app_name cs) (v_pk_field cs))"
| "call_lambda cs Lambda_update_through =
     (case (v_through_model cs, v_through_app cs, v_field_name cs) of
        (Some through_model, Some through_app, Some field_name) \<Rightarrow>
          Inr (Update_foreign_keys (v_parent_model cs) through_model (v_app_name cs) through_app
                 field_name (v_pk_field cs))
      | _ \<Rightarrow> Inl NameError)"
| "call_lambda cs Lambda_update_child =
     (case (v_child_model cs, v_child_app cs, v_fk_field cs) of
        (Some child_model, Some child_app, Some fk_field) \<Rightarrow>
          Inr (Update_foreign_keys (v_parent_model cs) child_model (v_app_name cs) child_app
                 fk_field (v_pk_field cs))
      | _ \<Rightarrow> Inl NameError)"

record migration =
  mig_dependencies :: "(string \<times> string) list"
  mig_operations :: "operation list"
  mig_cells :: cells

text \<open>\<open>Raised e ops\<close>: the call ended with exception \<open>e\<close>, and \<open>ops\<close> was the value of its
  local \<^verbatim>\<open>operations\<close> at that moment.\<close>

datatype outcome =
    Raised py_error "operation list"
  | Returned migration

text \<open>The error message of lines 248 to 279.\<close>

definition build_error_message :: "string \<Rightarrow> implicit_entry list \<Rightarrow> error_message" where
  "build_error_message parent_model implicit_m2m =
     (let (through_models_code, migration_hints) = generate_through_model_code implicit_m2m
      in \<lparr>em_parent_model = parent_model,
          em_relations =
            map (\<lambda>(i, m2m). (i + 1, ie_app_name m2m, ie_model m2m, ie_field_name m2m))
              (zip [0 ..< length implicit_m2m] implicit_m2m),
          em_through_models = through_models_code,
          em_migration_files = migration_hints\<rparr>)"

text \<open>The operations appended by one pass of the loop of step 4 (4.1 to 4.4).\<close>

definition through_operations :: "through_entry \<Rightarrow> operation list" where
  "through_operations through =
     (let through_model = te_model through;
          field_name = te_field_name through
      in [AddField (lower through_model) (field_name @ ''_uuid'') UUIDField_null,
          RunPython Lambda_update_through,
          RemoveField (lower through_model) field_name,
          RenameField (lower through_model) (field_name @ ''_uuid'') field_name])"

text \<open>The assignments at the head of \<^verbatim>\<open>for through in through_models\<close> (steps 4 and 10).\<close>

definition bind_through :: "through_entry \<Rightarrow> cells \<Rightarrow> cells" where
  "bind_through through cs =
     cs\<lparr>v_through_model := Some (te_model through),
        v_field_name := Some (te_field_name through),
        v_through_app := Some (case te_app_name through of Some a \<Rightarrow> a | None \<Rightarrow> v_app_name cs)\<rparr>"

text \<open>Step 4, \<^verbatim>\<open>for through in through_models\<close>.\<close>

fun through_loop :: "through_entry list \<Rightarrow> operation list \<times> cells \<Rightarrow> operation list \<times> cells" where
  "through_loop [] st = st"
| "through_loop (through # rest) (operations, cs) =
     through_loop rest (operations @ through_operations through, bind_through through cs)"

text \<open>The operations appended by one pass of the loop of step 5 (5.1 to 5.4).\<close>

definition child_operations :: "child_entry \<Rightarrow> operation list" where
  "child_operations child =
     (let child_model = ce_model child;
          fk_field = ce_fk_field child
      in [AddField (lower child_model) (fk_field @ ''_uuid'') UUIDField_null,
          RunPython Lambda_update_child,
          RemoveField (lower child_model) fk_field,
          RenameField (lower child_model) (fk_field @ ''_uuid'') fk_field])"

text \<open>The assignments at the head of \<^verbatim>\<open>for child in child_models\<close> (steps 5 and 9).\<close>

definition bind_child :: "child_entry \<Rightarrow> cells \<Rightarrow> cells" where
  "bind_child child cs =
     cs\<lparr>v_child_model := Some (ce_model child),
        v_fk_field := Some (ce_fk_field child),
        v_child_app := Some (case ce_app_name child of Some a \<Rightarrow> a | None \<Rightarrow> v_app_name cs)\<rparr>"

text \<open>Step 5, \<^verbatim>\<open>for child in child_models\<close>.\<close>

fun child_loop :: "child_entry list \<Rightarrow> operation list \<times> cells \<Rightarrow> operation list \<times> cells" where
  "child_loop [] st = st"
| "child_loop (child # rest) (operations, cs) =
     child_loop rest (operations @ child_operations child, bind_child child cs)"

text \<open>Step 9, the second \<^verbatim>\<open>for child in child_models\<close>.\<close>

definition child_fk_operation :: "string \<Rightarrow> string \<Rightarrow> child_entry \<Rightarrow> operation" where
  "child_fk_operation app_name parent_model child =
     AlterField (lower (ce_model child)) (ce_fk_field child)
       (ForeignKey (app_name @ ''.'' @ parent_model))"

fun child_fk_loop :: "child_entry list \<Rightarrow> operation list \<times> cells \<Rightarrow> operation list \<times> cells" where
  "child_fk_loop [] st = st"
| "child_fk_loop (child # rest) (operations, cs) =
     child_fk_loop rest
       (operations @ [child_fk_operation (v_app_name cs) (v_parent_model cs) child],
        bind_child child cs)"

text \<open>Step 10, the second \<^verbatim>\<open>for through in through_models\<close>.\<close>

definition through_fk_operation :: "string \<Rightarrow> string \<Rightarrow> through_entry \<Rightarrow> operation" where
  "through_fk_operation app_name parent_model through =
     AlterField (lower (te_model through)) (te_field_name through)
       (ForeignKey (app_name @ ''.'' @ parent_model))"

fun through_fk_loop :: "through_entry list \<Rightarrow> operation list \<times> cells \<Rightarrow> operation list \<times> cells" where
  "through_fk_loop [] st = st"
| "through_fk_loop (through # rest) (operations, cs) =
     through_fk_loop rest
       (operations @ [through_fk_operation (v_app_name cs) (v_parent_model cs) through],
        bind_through through cs)"

text \<open>Lines 242 to 289: discovery, the implicit many-to-many check and the choice of
  \<^verbatim>\<open>child_models\<close>. The second component of the result is \<^verbatim>\<open>through_models\<close>, \<open>None\<close>
  when the variable was never assigned.\<close>

definition detect_relations ::
  "registry \<Rightarrow> string \<Rightarrow> string \<Rightarrow> child_entry list option \<Rightarrow> bool
    \<Rightarrow> py_error + (child_entry list \<times> through_entry list option)" where
  "detect_relations apps_registry parent_model app_name child_models auto_detect_relations =
     (case (if auto_detect_relations then
              (case find_related_models apps_registry app_name parent_model of
                 Inl e \<Rightarrow> Inl e
               | Inr (fk_related, implicit_m2m, through_models) \<Rightarrow>
                   if implicit_m2m \<noteq> []
                   then Inl (ValueError (build_error_message parent_model implicit_m2m))
                   else Inr (case child_models of None \<Rightarrow> Some fk_related | Some c \<Rightarrow> Some c,
                             Some through_models))
            else Inr (child_models, None)) of
        Inl e \<Rightarrow> Inl e
      | Inr (child_models, through_models) \<Rightarrow>
          Inr (case child_models of None \<Rightarrow> [] | Some c \<Rightarrow> c, through_models))"

text \<open>Lines 291 to 456: the ten numbered steps.\<close>

definition build_operations ::
  "string \<Rightarrow> string \<Rightarrow> string \<Rightarrow> bool \<Rightarrow> child_entry list \<Rightarrow> through_entry list option
    \<Rightarrow> operation list \<Rightarrow> operation list \<times> cells" where
  "build_operations parent_model app_name pk_field auto_detect_relations child_models
     through_models operations =
     (let cs = \<lparr>v_parent_model = parent_model, v_app_name = app_name, v_pk_field = pk_field,
                v_through_model = None, v_field_name = None, v_through_app = None,
                v_child_model = None, v_fk_field = None, v_child_app = None\<rparr>;
          st = (operations @
                  [AddField (lower parent_model) (pk_field @ ''_uuid'') UUIDField_null,
                   RunPython Lambda_generate_uuid,
                   AlterField (lower parent_model) (pk_field @ ''_uuid'') UUIDField_default],
                cs);
          st = (case through_models of
                  Some ts \<Rightarrow> if auto_detect_relations \<and> ts \<noteq> [] then through_loop ts st else st
                | None \<Rightarrow> st);
          st = child_loop child_models st;
          st = (fst st @
                  [RemoveField (lower parent_model) pk_field,
                   RenameField (lower parent_model) (pk_field @ ''_uuid'') pk_field,
                   AlterField (lower parent_model) pk_field UUIDField_primary_key],
                snd st);
          st = child_fk_loop child_models st;
          st = (case through_models of
                  Some ts \<Rightarrow> if auto_detect_relations \<and> ts \<noteq> [] then through_fk_loop ts st else st
                | None \<Rightarrow> st)
      in st)"

definition create_uuid_migration ::
  "registry \<Rightarrow> string \<Rightarrow> string \<Rightarrow> (string \<times> string) list \<Rightarrow> child_entry list option
    \<Rightarrow> string \<Rightarrow> bool \<Rightarrow> outcome" where
  "create_uuid_migration apps_registry parent_model app_name dependencies child_models pk_field
     auto_detect_relations =
     (let operations = [] in
      case detect_relations apps_registry parent_model app_name child_models
             auto_detect_relations of
        Inl e \<Rightarrow> Raised e operations
      | Inr (child_models, through_models) \<Rightarrow>
          (let (operations, cs) =
                 build_operations parent_model app_name pk_field auto_detect_relations
                   child_models through_models operations
           in Returned \<lparr>mig_dependencies = dependencies, mig_operations = operations,
                        mig_cells = cs\<rparr>))"

text \<open>The through models that steps 4 and 10 loop over: those found by discovery when
  \<^verbatim>\<open>auto_detect_relations\<close> holds, none otherwise.\<close>

definition effective_through :: "bool \<Rightarrow> through_entry list option \<Rightarrow> through_entry list" where
  "effective_through auto thr = (case thr of Some ts \<Rightarrow> if auto then ts else [] | None \<Rightarrow> [])"

section \<open>update_foreign_keys\<close>

text \<open>
  A model instance is its attributes, name and value in order; a table is the rows and,
  for \<^verbatim>\<open>_meta.get_field(name).null\<close>, the nullability of each of its fields.
  \<^verbatim>\<open>apps.get_model\<close> is a lookup that may fail.
\<close>

datatype val = NoneV | IntV int | UUIDV nat

type_synonym row = "(string \<times> val) list"

record table =
  tb_field_null :: "(string \<times> bool) list"
  tb_rows :: "row list"

definition getattr :: "row \<Rightarrow> string \<Rightarrow> py_error + val" where
  "getattr r a = (case map_of r a of None \<Rightarrow> Inl AttributeError | Some v \<Rightarrow> Inr v)"

definition setattr :: "row \<Rightarrow> string \<Rightarrow> val \<Rightarrow> row" where
  "setattr r a v = dict_set a v r"

text \<open>\<^verbatim>\<open>Model.objects.get(**{field: v})\<close>: the one row with that value.\<close>

definition objects_get :: "table \<Rightarrow> string \<Rightarrow> val \<Rightarrow> py_error + row" where
  "objects_get t field_name v =
     (case filter (\<lambda>r. map_of r field_name = Some v) (tb_rows t) of
        [] \<Rightarrow> Inl DoesNotExist
      | [r] \<Rightarrow> Inr r
      | _ \<Rightarrow> Inl MultipleObjectsReturned)"

text \<open>The body of \<^verbatim>\<open>for child in ChildModel.objects.using(db_alias).all()\<close>: the row as it
  is stored afterwards. Only \<^verbatim>\<open>DoesNotExist\<close> is caught.\<close>

definition update_child :: "table \<Rightarrow> table \<Rightarrow> string \<Rightarrow> string \<Rightarrow> row \<Rightarrow> py_error + row" where
  "update_child ParentModel ChildModel fk_field pk_field child =
     (case getattr child (fk_field @ ''_id'') of
        Inl e \<Rightarrow> Inl e
      | Inr fk_id \<Rightarrow>
          (case objects_get ParentModel pk_field fk_id of
             Inr parent_instance \<Rightarrow>
               (case getattr parent_instance (pk_field @ ''_uuid'') of
                  Inl e \<Rightarrow> Inl e
                | Inr u \<Rightarrow> Inr (setattr child (fk_field @ ''_uuid'') u))
           | Inl DoesNotExist \<Rightarrow>
               (case map_of (tb_field_null ChildModel) fk_field of
                  None \<Rightarrow> Inl FieldDoesNotExist
                | Some nullable \<Rightarrow>
                    if nullable then Inr (setattr child (fk_field @ ''_uuid'') NoneV)
                    else Inr child)
           | Inl e \<Rightarrow> Inl e))"

fun update_children ::
  "table \<Rightarrow> table \<Rightarrow> string \<Rightarrow> string \<Rightarrow> row list \<Rightarrow> py_error + row list" where
  "update_children ParentModel ChildModel fk_field pk_field [] = Inr []"
| "update_children ParentModel ChildModel fk_field pk_field (child # rest) =
     (case update_child ParentModel ChildModel fk_field pk_field child of
        Inl e \<Rightarrow> Inl e
      | Inr child' \<Rightarrow>
          (case update_children ParentModel ChildModel fk_field pk_field rest of
             Inl e \<Rightarrow> Inl e
           | Inr rest' \<Rightarrow> Inr (child' # rest')))"

text \<open>The result is the child table's rows after the loop, or the exception that
  ended it.\<close>

definition update_foreign_keys ::
  "(string \<Rightarrow> string \<Rightarrow> table option) \<Rightarrow> string \<Rightarrow> string \<Rightarrow> string \<Rightarrow> string \<Rightarrow> string
    \<Rightarrow> string \<Rightarrow> py_error + row list" where
  "update_foreign_keys apps parent_model child_model app_name child_app_name fk_field pk_field =
     (case apps app_name parent_model of
        None \<Rightarrow> Inl LookupError
      | Some ParentModel \<Rightarrow>
          (case apps child_app_name child_model of
             None \<Rightarrow> Inl LookupError
           | Some ChildModel \<Rightarrow>
               update_children ParentModel ChildModel fk_field pk_field (tb_rows ChildModel)))"

section \<open>Scenarios\<close>

text \<open>A registry over a list of models, in registration order; \<open>get_model\<close> finds the
  model with the given app label and name.\<close>

definition registry_of :: "model list \<Rightarrow> registry" where
  "registry_of ms =
     \<lparr>get_model = (\<lambda>app nm. find (\<lambda>m. mo_app_label m = app \<and> mo_object_name m = nm) ms),
      get_models = ms\<rparr>"

definition plain_field :: "string \<Rightarrow> field" where
  "plain_field nm =
     \<lparr>f_name = nm, f_is_relation = False, f_related_model = None, f_null = False\<rparr>"

definition foreign_key :: "string \<Rightarrow> model_id \<Rightarrow> bool \<Rightarrow> field" where
  "foreign_key nm target nullable =
     \<lparr>f_name = nm, f_is_relation = True, f_related_model = Some target, f_null = nullable\<rparr>"

text \<open>The automatic join model of an implicit many-to-many field.\<close>

definition auto_through :: "string \<Rightarrow> string \<Rightarrow> model_id \<Rightarrow> model_id \<Rightarrow> through_meta" where
  "auto_through app nm src tgt =
     \<lparr>th_object_name = nm, th_app_label = app, th_auto_created = True,
      th_fields = [plain_field ''id'',
                   foreign_key (lower (snd src)) src False,
                   foreign_key (lower (snd tgt)) tgt False]\<rparr>"

text \<open>
  App \<open>shop\<close>: \<open>Order\<close> with \<^verbatim>\<open>tags = ManyToManyField(Tag, through=OrderTagThrough)\<close>,
  \<open>Tag\<close>, \<open>LineItem\<close> with a non-nullable foreign key \<open>order\<close>, and the join model
  \<open>OrderTagThrough\<close> with its foreign keys \<open>order\<close> and \<open>tag\<close>.
\<close>

definition OrderTagThrough_fields :: "field list" where
  "OrderTagThrough_fields =
     [plain_field ''id'',
      foreign_key ''order'' (''shop'', ''Order'') False,
      foreign_key ''tag'' (''shop'', ''Tag'') False]"

definition OrderTagThrough_meta :: through_meta where
  "OrderTagThrough_meta =
     \<lparr>th_object_name = ''OrderTagThrough'', th_app_label = ''shop'', th_auto_created = False,
      th_fields = OrderTagThrough_fields\<rparr>"

definition shop :: registry where
  "shop = registry_of
     [\<lparr>mo_object_name = ''Order'', mo_app_label = ''shop'',
       mo_fields = [plain_field ''id''],
       mo_many_to_many =
         [\<lparr>m_name = ''tags'', m_related_model = (''shop'', ''Tag''),
           m_through = OrderTagThrough_meta\<rparr>]\<rparr>,
      \<lparr>mo_object_name = ''Tag'', mo_app_label = ''shop'',
       mo_fields = [plain_field ''id'', plain_field ''label''], mo_many_to_many = []\<rparr>,
      \<lparr>mo_object_name = ''LineItem'', mo_app_label = ''shop'',
       mo_fields = [plain_field ''id'', foreign_key ''order'' (''shop'', ''Order'') False],
       mo_many_to_many = []\<rparr>,
      \<lparr>mo_object_name = ''OrderTagThrough'', mo_app_label = ''shop'',
       mo_fields = OrderTagThrough_fields, mo_many_to_many = []\<rparr>]"

definition LineItem_order :: child_entry where
  "LineItem_order = \<lparr>ce_model = ''LineItem'', ce_app_name = Some ''shop'', ce_fk_field = ''order''\<rparr>"

definition OrderTagThrough_order_fk :: child_entry where
  "OrderTagThrough_order_fk =
     \<lparr>ce_model = ''OrderTagThrough'', ce_app_name = Some ''shop'', ce_fk_field = ''order''\<rparr>"

definition OrderTagThrough_order :: through_entry where
  "OrderTagThrough_order =
     \<lparr>te_model = ''OrderTagThrough'', te_app_name = Some ''shop'', te_field_name = ''order''\<rparr>"

text \<open>App \<open>billing\<close>: \<open>Order\<close>, and two models with a foreign key to it,
  \<open>LineItem.order\<close> and \<open>Invoice.purchase\<close>; no many-to-many field.\<close>

definition billing :: registry where
  "billing = registry_of
     [\<lparr>mo_object_name = ''Order'', mo_app_label = ''billing'',
       mo_fields = [plain_field ''id''], mo_many_to_many = []\<rparr>,
      \<lparr>mo_object_name = ''LineItem'', mo_app_label = ''billing'',
       mo_fields = [plain_field ''id'', foreign_key ''order'' (''billing'', ''Order'') False],
       mo_many_to_many = []\<rparr>,
      \<lparr>mo_object_name = ''Invoice'', mo_app_label = ''billing'',
       mo_fields = [plain_field ''id'', foreign_key ''purchase'' (''billing'', ''Order'') True],
       mo_many_to_many = []\<rparr>]"

text \<open>App \<open>blog\<close>: \<open>Post\<close> with the implicit \<^verbatim>\<open>labels = ManyToManyField(Label)\<close>, and
  \<open>Label\<close>.\<close>

definition blog :: registry where
  "blog = registry_of
     [\<lparr>mo_object_name = ''Post'', mo_app_label = ''blog'',
       mo_fields = [plain_field ''id''],
       mo_many_to_many =
         [\<lparr>m_name = ''labels'', m_related_model = (''blog'', ''Label''),
           m_through = auto_through ''blog'' ''Post_labels'' (''blog'', ''Post'') (''blog'', ''Label'')\<rparr>]\<rparr>,
      \<lparr>mo_object_name = ''Label'', mo_app_label = ''blog'',
       mo_fields = [plain_field ''id''], mo_many_to_many = []\<rparr>]"

text \<open>App \<open>forum\<close>: \<open>Member\<close> with the implicit, self-referential
  \<^verbatim>\<open>friends = ManyToManyField('self')\<close>.\<close>

definition forum :: registry where
  "forum = registry_of
     [\<lparr>mo_object_name = ''Member'', mo_app_label = ''forum'',
       mo_fields = [plain_field ''id''],
       mo_many_to_many =
         [\<lparr>m_name = ''friends'', m_related_model = (''forum'', ''Member''),
           m_through = auto_through ''forum'' ''Member_friends'' (''forum'', ''Member'') (''forum'', ''Member'')\<rparr>]\<rparr>]"

text \<open>App \<open>solo\<close>: the single model \<open>Note\<close>, which nothing refers to.\<close>

definition solo :: registry where
  "solo = registry_of
     [\<lparr>mo_object_name = ''Note'', mo_app_label = ''solo'',
       mo_fields = [plain_field ''id'', plain_field ''body''], mo_many_to_many = []\<rparr>]"

text \<open>App \<open>desk\<close>: \<open>Ticket\<close>, and \<open>Agent\<close> with two implicit many-to-many fields to it,
  \<open>assigned\<close> and \<open>watched\<close>.\<close>

definition desk :: registry where
  "desk = registry_of
     [\<lparr>mo_object_name = ''Ticket'', mo_app_label = ''desk'',
       mo_fields = [plain_field ''id''], mo_many_to_many = []\<rparr>,
      \<lparr>mo_object_name = ''Agent'', mo_app_label = ''desk'',
       mo_fields = [plain_field ''id''],
       mo_many_to_many =
         [\<lparr>m_name = ''assigned'', m_related_model = (''desk'', ''Ticket''),
           m_through = auto_through ''desk'' ''Agent_assigned'' (''desk'', ''Agent'') (''desk'', ''Ticket'')\<rparr>,
          \<lparr>m_name = ''watched'', m_related_model = (''desk'', ''Ticket''),
           m_through = auto_through ''desk'' ''Agent_watched'' (''desk'', ''Agent'') (''desk'', ''Ticket'')\<rparr>]\<rparr>]"

text \<open>
  Stored rows for \<open>update_foreign_keys\<close>: the \<open>Order\<close> table holds the row with
  \<open>id = 1\<close>; the \<open>LineItem\<close> table holds a row that refers to it and a row that refers
  to the missing \<open>id = 7\<close>. \<open>order\<close> is not nullable in \<open>orphan_apps False\<close> and nullable
  in \<open>orphan_apps True\<close>.
\<close>

definition Order_table :: table where
  "Order_table =
     \<lparr>tb_field_null = [(''id'', False), (''id_uuid'', False)],
      tb_rows = [[(''id'', IntV 1), (''id_uuid'', UUIDV 1001)]]\<rparr>"

definition LineItem_table :: "bool \<Rightarrow> table" where
  "LineItem_table nullable =
     \<lparr>tb_field_null = [(''id'', False), (''order'', nullable), (''order_uuid'', True)],
      tb_rows = [[(''id'', IntV 10), (''order_id'', IntV 1), (''order_uuid'', NoneV)],
                 [(''id'', IntV 11), (''order_id'', IntV 7), (''order_uuid'', NoneV)]]\<rparr>"

definition orphan_apps :: "bool \<Rightarrow> string \<Rightarrow> string \<Rightarrow> table option" where
  "orphan_apps nullable app nm =
     (if app = ''shop'' \<and> nm = ''Order'' then Some Order_table
      else if app = ''shop'' \<and> nm = ''LineItem'' then Some (LineItem_table nullable)
      else None)"

section \<open>The loops as list functions\<close>

lemma through_loop_eq:
  "through_loop ts (ops, cs) =
     (ops @ concat (map through_operations ts), fold bind_through ts cs)"
  by (induction ts arbitrary: ops cs) simp_all

lemma child_loop_eq:
  "child_loop xs (ops, cs) =
     (ops @ concat (map child_operations xs), fold bind_child xs cs)"
  by (induction xs arbitrary: ops cs) simp_all

lemma fold_bind_child_params:
  "v_app_name (fold bind_child xs cs) = v_app_name cs \<and>
   v_parent_model (fold bind_child xs cs) = v_parent_model cs \<and>
   v_pk_field (fold bind_child xs cs) = v_pk_field cs"
  by (induction xs arbitrary: cs) (simp_all add: bind_child_def)

lemma fold_bind_through_params:
  "v_app_name (fold bind_through ts cs) = v_app_name cs \<and>
   v_parent_model (fold bind_through ts cs) = v_parent_model cs \<and>
   v_pk_field (fold bind_through ts cs) = v_pk_field cs"
  by (induction ts arbitrary: cs) (simp_all add: bind_through_def)

lemma child_fk_loop_eq:
  "child_fk_loop xs (ops, cs) =
     (ops @ map (child_fk_operation (v_app_name cs) (v_parent_model cs)) xs,
      fold bind_child xs cs)"
  by (induction xs arbitrary: ops cs) (simp_all add: bind_child_def)

lemma through_fk_loop_eq:
  "through_fk_loop ts (ops, cs) =
     (ops @ map (through_fk_operation (v_app_name cs) (v_parent_model cs)) ts,
      fold bind_through ts cs)"
  by (induction ts arbitrary: ops cs) (simp_all add: bind_through_def)

lemma through_loop_st:
  "through_loop ts st =
     (fst st @ concat (map through_operations ts), fold bind_through ts (snd st))"
  by (cases st) (simp add: through_loop_eq)

lemma child_loop_st:
  "child_loop xs st =
     (fst st @ concat (map child_operations xs), fold bind_child xs (snd st))"
  by (cases st) (simp add: child_loop_eq)

lemma child_fk_loop_st:
  "child_fk_loop xs st =
     (fst st @ map (child_fk_operation (v_app_name (snd st)) (v_parent_model (snd st))) xs,
      fold bind_child xs (snd st))"
  by (cases st) (simp add: child_fk_loop_eq)

lemma through_fk_loop_st:
  "through_fk_loop ts st =
     (fst st @ map (through_fk_operation (v_app_name (snd st)) (v_parent_model (snd st))) ts,
      fold bind_through ts (snd st))"
  by (cases st) (simp add: through_fk_loop_eq)

lemma build_operations_eq:
  "build_operations parent app pk auto xs thr [] =
     ([AddField (lower parent) (pk @ ''_uuid'') UUIDField_null,
       RunPython Lambda_generate_uuid,
       AlterField (lower parent) (pk @ ''_uuid'') UUIDField_default]
      @ concat (map through_operations (effective_through auto thr))
      @ concat (map child_operations xs)
      @ [RemoveField (lower parent) pk,
         RenameField (lower parent) (pk @ ''_uuid'') pk,
         AlterField (lower parent) pk UUIDField_primary_key]
      @ map (child_fk_operation app parent) xs
      @ map (through_fk_operation app parent) (effective_through auto thr),
      fold bind_through (effective_through auto thr)
        (fold bind_child xs
          (fold bind_child xs
            (fold bind_through (effective_through auto thr)
               \<lparr>v_parent_model = parent, v_app_name = app, v_pk_field = pk,
                v_through_model = None, v_field_name = None, v_through_app = None,
                v_child_model = None, v_fk_field = None, v_child_app = None\<rparr>))))"
  by (cases thr)
     (simp_all add: build_operations_def effective_through_def Let_def through_loop_st child_loop_st
        child_fk_loop_st through_fk_loop_st fold_bind_child_params fold_bind_through_params)


section \<open>Discovery, validation and the returned migration\<close>

lemma detect_relations_auto:
  "find_related_models reg app parent = Inr (fk, imp, thr) \<Longrightarrow>
   detect_relations reg parent app cm True =
     (if imp \<noteq> [] then Inl (ValueError (build_error_message parent imp))
      else Inr (case cm of None \<Rightarrow> fk | Some c \<Rightarrow> c, Some thr))"
  by (cases cm) (simp_all add: detect_relations_def)

lemma detect_relations_manual:
  "detect_relations reg parent app cm False = Inr (case cm of None \<Rightarrow> [] | Some c \<Rightarrow> c, None)"
  by (simp add: detect_relations_def)

lemma create_Returned:
  "detect_relations reg parent app cm auto = Inr (xs, thr) \<Longrightarrow>
   create_uuid_migration reg parent app deps cm pk auto =
     Returned \<lparr>mig_dependencies = deps,
               mig_operations = fst (build_operations parent app pk auto xs thr []),
               mig_cells = snd (build_operations parent app pk auto xs thr [])\<rparr>"
  by (simp add: create_uuid_migration_def split_beta)

lemma create_Raised:
  "detect_relations reg parent app cm auto = Inl e \<Longrightarrow>
   create_uuid_migration reg parent app deps cm pk auto = Raised e []"
  by (simp add: create_uuid_migration_def)

lemma create_Returned_only_after_detection:
  assumes "create_uuid_migration reg parent app deps cm pk auto = Returned mig"
  shows "\<exists>children thr. detect_relations reg parent app cm auto = Inr (children, thr)"
proof (cases "detect_relations reg parent app cm auto")
  case (Inl e)
  with assms show ?thesis by (simp add: create_Raised)
next
  case (Inr r)
  then show ?thesis by (cases r) simp
qed

section \<open>Where the operations of the dependents lie\<close>

lemma child_remove_in_operations:
  "c \<in> set xs \<Longrightarrow>
   RemoveField (lower (ce_model c)) (ce_fk_field c) \<in> set (concat (map child_operations xs))"
  by (auto simp: child_operations_def Let_def)

lemma through_remove_in_operations:
  "t \<in> set ts \<Longrightarrow>
   RemoveField (lower (te_model t)) (te_field_name t) \<in> set (concat (map through_operations ts))"
  by (auto simp: through_operations_def Let_def)

lemma no_foreign_key_in_child_operations:
  "AlterField m f (ForeignKey t) \<notin> set (concat (map child_operations xs))"
  by (auto simp: child_operations_def Let_def)

lemma no_foreign_key_in_through_operations:
  "AlterField m f (ForeignKey t) \<notin> set (concat (map through_operations ts))"
  by (auto simp: through_operations_def Let_def)

lemma no_remove_in_fk_operations:
  "RemoveField m f \<notin> set (map (child_fk_operation app parent) xs)"
  "RemoveField m f \<notin> set (map (through_fk_operation app parent) ts)"
  by (auto simp: child_fk_operation_def through_fk_operation_def)

section \<open>The variables the emitted lambdas read\<close>

text \<open>
  The loops of steps 5 and 9 assign \<^verbatim>\<open>child_model\<close>, \<^verbatim>\<open>fk_field\<close> and \<^verbatim>\<open>child_app\<close>
  anew in every pass, and every lambda of step 5 reads these same variables when the
  migration runs. With at least one child, whichever of these lambdas is run calls
  \<open>update_foreign_keys\<close> for the last child.
\<close>

lemma fold_bind_through_child_cells:
  "v_child_model (fold bind_through ts cs) = v_child_model cs \<and>
   v_fk_field (fold bind_through ts cs) = v_fk_field cs \<and>
   v_child_app (fold bind_through ts cs) = v_child_app cs"
  by (induction ts arbitrary: cs) (simp_all add: bind_through_def)

lemma fold_bind_child_last:
  assumes "xs \<noteq> []"
  shows "v_child_model (fold bind_child xs cs) = Some (ce_model (last xs)) \<and>
     v_fk_field (fold bind_child xs cs) = Some (ce_fk_field (last xs)) \<and>
     v_child_app (fold bind_child xs cs) =
       Some (case ce_app_name (last xs) of Some a \<Rightarrow> a | None \<Rightarrow> v_app_name cs)"
proof -
  from assms obtain ys y where xs: "xs = ys @ [y]"
    by (cases xs rule: rev_cases) auto
  show ?thesis
    unfolding xs by (simp add: bind_child_def fold_bind_child_params split: option.split)
qed

lemma child_lambda_reads_last_child:
  assumes "xs \<noteq> []"
  shows "call_lambda (snd (build_operations parent app pk auto xs thr [])) Lambda_update_child =
     Inr (Update_foreign_keys parent (ce_model (last xs)) app
            (case ce_app_name (last xs) of Some a \<Rightarrow> a | None \<Rightarrow> app)
            (ce_fk_field (last xs)) pk)"
  using assms
  by (simp add: build_operations_eq fold_bind_through_child_cells fold_bind_child_last
        fold_bind_child_params fold_bind_through_params split: option.split)

section \<open>update_foreign_keys when the parent row is missing\<close>

text \<open>
  When the lookup of the parent row ends in \<^verbatim>\<open>DoesNotExist\<close>, the row is stored with an
  empty surrogate if the foreign key is nullable and is left as it is otherwise; no
  exception leaves the function in either case.
\<close>

lemma update_child_missing_parent:
  assumes "getattr child (fk_field @ ''_id'') = Inr v"
    and "objects_get ParentModel pk_field v = Inl DoesNotExist"
    and "map_of (tb_field_null ChildModel) fk_field = Some nullable"
  shows "update_child ParentModel ChildModel fk_field pk_field child =
     Inr (if nullable then setattr child (fk_field @ ''_uuid'') NoneV else child)"
  using assms by (simp add: update_child_def)

lemma orphan_of_nullable_key_set_to_None:
  "update_foreign_keys (orphan_apps True) ''Order'' ''LineItem'' ''shop'' ''shop'' ''order'' ''id'' =
     Inr [[(''id'', IntV 10), (''order_id'', IntV 1), (''order_uuid'', UUIDV 1001)],
          [(''id'', IntV 11), (''order_id'', IntV 7), (''order_uuid'', NoneV)]]"
  by code_simp

section \<open>The join-table name computed for one relation\<close>

lemma automatic_table_name_of_relation:
  "mh_automatic_table_name (snd (snd (through_model_for m2m))) =
     lower (ie_app_name m2m) @ ''_'' @ lower (ie_model m2m) @ ''_'' @ lower (ie_field_name m2m)"
  by (cases "ie_related m2m") (auto simp: through_model_for_def Let_def)

section \<open>A self-referential implicit relation\<close>

text \<open>
  \<open>Member.friends\<close> points at \<open>Member\<close> itself: the scan over all models lists it, and
  the scan of the parent's own many-to-many fields lists it again.
\<close>

lemma forum_self_relation_listed_twice:
  "find_related_models forum ''forum'' ''Member'' =
     Inr ([],
          [\<lparr>ie_model = ''Member'', ie_app_name = ''forum'', ie_field_name = ''friends'',
            ie_related = None\<rparr>,
           \<lparr>ie_model = ''Member'', ie_app_name = ''forum'', ie_field_name = ''friends'',
            ie_related = Some (''Member'', ''forum'')\<rparr>],
          [])"
  by code_simp

section \<open>The shop scenario with the child supplied by the caller\<close>

text \<open>
  When the caller passes \<open>LineItem.order\<close> as the only child, the discovered foreign
  keys are not used: the join model is handled once, by steps 4 and 10, and the plan has
  16 operations.
\<close>

lemma shop_plan_with_supplied_child:
  "create_uuid_migration shop ''Order'' ''shop'' [(''shop'', ''0001_initial'')]
     (Some [\<lparr>ce_model = ''LineItem'', ce_app_name = None, ce_fk_field = ''order''\<rparr>]) ''id'' True =
     Returned \<lparr>mig_dependencies = [(''shop'', ''0001_initial'')],
               mig_operations =
                 [AddField ''order'' ''id_uuid'' UUIDField_null,
                  RunPython Lambda_generate_uuid,
                  AlterField ''order'' ''id_uuid'' UUIDField_default,
                  AddField ''ordertagthrough'' ''order_uuid'' UUIDField_null,
                  RunPython Lambda_update_through,
                  RemoveField ''ordertagthrough'' ''order'',
                  RenameField ''ordertagthrough'' ''order_uuid'' ''order'',
                  AddField ''lineitem'' ''order_uuid'' UUIDField_null,
                  RunPython Lambda_update_child,
                  RemoveField ''lineitem'' ''order'',
                  RenameField ''lineitem'' ''order_uuid'' ''order'',
                  RemoveField ''order'' ''id'',
                  RenameField ''order'' ''id_uuid'' ''id'',
                  AlterField ''order'' ''id'' UUIDField_primary_key,
                  AlterField ''lineitem'' ''order'' (ForeignKey ''shop.Order''),
                  AlterField ''ordertagthrough'' ''order'' (ForeignKey ''shop.Order'')],
               mig_cells =
                 \<lparr>v_parent_model = ''Order'', v_app_name = ''shop'', v_pk_field = ''id'',
                  v_through_model = Some ''OrderTagThrough'', v_field_name = Some ''order'',
                  v_through_app = Some ''shop'', v_child_model = Some ''LineItem'',
                  v_fk_field = Some ''order'', v_child_app = Some ''shop''\<rparr>\<rparr>"
  by code_simp

section \<open>Claims\<close>

text \<open>
  C1. The scenario of the claim is the \<open>shop\<close> registry: target \<open>Order\<close>, the
  non-nullable foreign key \<open>LineItem.order\<close>, and the explicit join model
  \<open>OrderTagThrough\<close> between \<open>Order\<close> and \<open>Tag\<close>. The claim expects a plan of 16
  operations. Called with its defaults, \<open>create_uuid_migration\<close> returns the 21
  operations below: discovery lists \<open>OrderTagThrough.order\<close> both as a through model and
  as a foreign key, so the join model gets the four dependent steps twice (positions 4 to
  7 and 12 to 15, counting from 1) and the foreign-key step twice (positions 20 and 21).
\<close>

theorem shop_default_plan:
  "create_uuid_migration shop ''Order'' ''shop'' [(''shop'', ''0001_initial'')] None ''id'' True =
     Returned \<lparr>mig_dependencies = [(''shop'', ''0001_initial'')],
               mig_operations =
                 [AddField ''order'' ''id_uuid'' UUIDField_null,
                  RunPython Lambda_generate_uuid,
                  AlterField ''order'' ''id_uuid'' UUIDField_default,
                  AddField ''ordertagthrough'' ''order_uuid'' UUIDField_null,
                  RunPython Lambda_update_through,
                  RemoveField ''ordertagthrough'' ''order'',
                  RenameField ''ordertagthrough'' ''order_uuid'' ''order'',
                  AddField ''lineitem'' ''order_uuid'' UUIDField_null,
                  RunPython Lambda_update_child,
                  RemoveField ''lineitem'' ''order'',
                  RenameField ''lineitem'' ''order_uuid'' ''order'',
                  AddField ''ordertagthrough'' ''order_uuid'' UUIDField_null,
                  RunPython Lambda_update_child,
                  RemoveField ''ordertagthrough'' ''order'',
                  RenameField ''ordertagthrough'' ''order_uuid'' ''order'',
                  RemoveField ''order'' ''id'',
                  RenameField ''order'' ''id_uuid'' ''id'',
                  AlterField ''order'' ''id'' UUIDField_primary_key,
                  AlterField ''lineitem'' ''order'' (ForeignKey ''shop.Order''),
                  AlterField ''ordertagthrough'' ''order'' (ForeignKey ''shop.Order''),
                  AlterField ''ordertagthrough'' ''order'' (ForeignKey ''shop.Order'')],
               mig_cells =
                 \<lparr>v_parent_model = ''Order'', v_app_name = ''shop'', v_pk_field = ''id'',
                  v_through_model = Some ''OrderTagThrough'', v_field_name = Some ''order'',
                  v_through_app = Some ''shop'', v_child_model = Some ''OrderTagThrough'',
                  v_fk_field = Some ''order'', v_child_app = Some ''shop''\<rparr>\<rparr>"
  by code_simp

text \<open>
  C2. The claim says that no relation is in more than one of the three lists that
  \<open>find_related_models\<close> returns. On the \<open>shop\<close> registry the foreign key
  \<open>OrderTagThrough.order\<close> is both the second entry of the foreign-key list and the
  entry of the through-model list.
\<close>

theorem shop_through_key_in_two_lists:
  "find_related_models shop ''shop'' ''Order'' =
     Inr ([\<lparr>ce_model = ''LineItem'', ce_app_name = Some ''shop'', ce_fk_field = ''order''\<rparr>,
           \<lparr>ce_model = ''OrderTagThrough'', ce_app_name = Some ''shop'', ce_fk_field = ''order''\<rparr>],
          [],
          [\<lparr>te_model = ''OrderTagThrough'', te_app_name = Some ''shop'',
            te_field_name = ''order''\<rparr>])"
  by code_simp

text \<open>
  C3. With auto-detection enabled and discovery returning its three lists: when the list
  of implicit many-to-many relations is not empty, \<open>create_uuid_migration\<close> raises the
  \<^verbatim>\<open>ValueError\<close> that carries the remediation report (the numbered relations, the
  through-model definitions and the migration recipes), returns no migration, and its
  \<^verbatim>\<open>operations\<close> list is still empty at that moment; when the list is empty, it returns a
  migration with the caller's dependencies and a non-empty plan.
\<close>

theorem blocked_iff_implicit_m2m:
  assumes "find_related_models reg app parent = Inr (fk, imp, thr)"
  shows "(imp \<noteq> [] \<longrightarrow>
            create_uuid_migration reg parent app deps cm pk True =
              Raised (ValueError
                        \<lparr>em_parent_model = parent,
                         em_relations =
                           map (\<lambda>(i, m2m). (i + 1, ie_app_name m2m, ie_model m2m, ie_field_name m2m))
                             (zip [0 ..< length imp] imp),
                         em_through_models = fst (generate_through_model_code imp),
                         em_migration_files = snd (generate_through_model_code imp)\<rparr>) [])
       \<and> (imp = [] \<longrightarrow>
            (\<exists>mig. create_uuid_migration reg parent app deps cm pk True = Returned mig
                   \<and> mig_dependencies mig = deps \<and> mig_operations mig \<noteq> []))"
proof (cases "imp = []")
  case True
  with assms have "detect_relations reg parent app cm True =
      Inr (case cm of None \<Rightarrow> fk | Some c \<Rightarrow> c, Some thr)"
    by (simp add: detect_relations_auto)
  then show ?thesis using True
    by (simp add: create_Returned build_operations_eq)
next
  case False
  with assms have "detect_relations reg parent app cm True =
      Inl (ValueError (build_error_message parent imp))"
    by (simp add: detect_relations_auto)
  then show ?thesis using False
    by (simp add: create_Raised build_error_message_def split_beta)
qed

text \<open>C3 at the \<open>blog\<close> registry (one implicit relation) and at the \<open>solo\<close> registry (none).\<close>

theorem blocked_iff_implicit_m2m_witness:
  "find_related_models blog ''blog'' ''Post'' =
     Inr ([], [\<lparr>ie_model = ''Post'', ie_app_name = ''blog'', ie_field_name = ''labels'',
                 ie_related = Some (''Label'', ''blog'')\<rparr>], [])
   \<and> create_uuid_migration blog ''Post'' ''blog'' [] None ''id'' True =
       Raised (ValueError
         \<lparr>em_parent_model = ''Post'',
          em_relations = [(1, ''blog'', ''Post'', ''labels'')],
          em_through_models =
            [(''PostLabelThrough'',
              \<lparr>mc_through_model_name = ''PostLabelThrough'', mc_source_model = ''Post'',
               mc_source_app = ''blog'', mc_target_model = ''Label'', mc_target_app = ''blog''\<rparr>)],
          em_migration_files =
            [(''PostLabelThrough'',
              \<lparr>mh_through_model_name = ''PostLabelThrough'', mh_source_app = ''blog'',
               mh_source_model = ''Post'', mh_target_app = ''blog'', mh_target_model = ''Label'',
               mh_automatic_table_name = ''blog_post_labels'', mh_field_name = ''labels''\<rparr>)]\<rparr>) []
   \<and> find_related_models solo ''solo'' ''Note'' = Inr ([], [], [])
   \<and> (\<exists>mig. create_uuid_migration solo ''Note'' ''solo'' [] None ''id'' True = Returned mig
          \<and> mig_dependencies mig = [] \<and> mig_operations mig \<noteq> [])"
proof -
  have blog: "find_related_models blog ''blog'' ''Post'' =
     Inr ([], [\<lparr>ie_model = ''Post'', ie_app_name = ''blog'', ie_field_name = ''labels'',
                 ie_related = Some (''Label'', ''blog'')\<rparr>], [])"
    by code_simp
  have code: "generate_through_model_code
       [\<lparr>ie_model = ''Post'', ie_app_name = ''blog'', ie_field_name = ''labels'',
         ie_related = Some (''Label'', ''blog'')\<rparr>] =
     ([(''PostLabelThrough'',
        \<lparr>mc_through_model_name = ''PostLabelThrough'', mc_source_model = ''Post'',
         mc_source_app = ''blog'', mc_target_model = ''Label'', mc_target_app = ''blog''\<rparr>)],
      [(''PostLabelThrough'',
        \<lparr>mh_through_model_name = ''PostLabelThrough'', mh_source_app = ''blog'',
         mh_source_model = ''Post'', mh_target_app = ''blog'', mh_target_model = ''Label'',
         mh_automatic_table_name = ''blog_post_labels'', mh_field_name = ''labels''\<rparr>)])"
    by code_simp
  have solo: "find_related_models solo ''solo'' ''Note'' = Inr ([], [], [])"
    by code_simp
  show ?thesis
    using blog solo code
      blocked_iff_implicit_m2m [OF blog, of "[]" None "''id''"]
      blocked_iff_implicit_m2m [OF solo, of "[]" None "''id''"]
    by simp
qed

text \<open>
  C4. Every returned plan splits around the three operations on the target's primary
  key (remove the old key, rename the surrogate, make it the primary key). For every
  dependent, a child or a through model, the removal of its old foreign-key field lies
  in the part before them and the operation that declares its field a foreign key lies
  in the part after them. No removal lies after them and no foreign-key declaration
  before them. The dependents are the lists that the first part of the function hands
  to its ten steps.
\<close>

theorem dependents_around_primary_key_swap:
  assumes "detect_relations reg parent app cm auto = Inr (children, thr)"
  shows "\<exists>before after cs.
     create_uuid_migration reg parent app deps cm pk auto =
       Returned \<lparr>mig_dependencies = deps,
                 mig_operations =
                   before @
                   [RemoveField (lower parent) pk,
                    RenameField (lower parent) (pk @ ''_uuid'') pk,
                    AlterField (lower parent) pk UUIDField_primary_key] @
                   after,
                 mig_cells = cs\<rparr>
     \<and> (\<forall>c \<in> set children.
           RemoveField (lower (ce_model c)) (ce_fk_field c) \<in> set before
         \<and> AlterField (lower (ce_model c)) (ce_fk_field c) (ForeignKey (app @ ''.'' @ parent))
             \<in> set after)
     \<and> (\<forall>t \<in> set (effective_through auto thr).
           RemoveField (lower (te_model t)) (te_field_name t) \<in> set before
         \<and> AlterField (lower (te_model t)) (te_field_name t) (ForeignKey (app @ ''.'' @ parent))
             \<in> set after)
     \<and> (\<forall>m f. RemoveField m f \<notin> set after)
     \<and> (\<forall>m f t. AlterField m f (ForeignKey t) \<notin> set before)"
proof -
  let ?ts = "effective_through auto thr"
  let ?before = "[AddField (lower parent) (pk @ ''_uuid'') UUIDField_null,
                  RunPython Lambda_generate_uuid,
                  AlterField (lower parent) (pk @ ''_uuid'') UUIDField_default]
                 @ concat (map through_operations ?ts)
                 @ concat (map child_operations children)"
  let ?after = "map (child_fk_operation app parent) children
                @ map (through_fk_operation app parent) ?ts"
  have plan: "create_uuid_migration reg parent app deps cm pk auto =
       Returned \<lparr>mig_dependencies = deps,
                 mig_operations =
                   ?before @
                   [RemoveField (lower parent) pk,
                    RenameField (lower parent) (pk @ ''_uuid'') pk,
                    AlterField (lower parent) pk UUIDField_primary_key] @
                   ?after,
                 mig_cells = snd (build_operations parent app pk auto children thr [])\<rparr>"
    using assms by (simp add: create_Returned build_operations_eq)
  have children: "\<forall>c \<in> set children.
           RemoveField (lower (ce_model c)) (ce_fk_field c) \<in> set ?before
         \<and> AlterField (lower (ce_model c)) (ce_fk_field c) (ForeignKey (app @ ''.'' @ parent))
             \<in> set ?after"
    using child_remove_in_operations by (auto simp: child_fk_operation_def)
  have throughs: "\<forall>t \<in> set ?ts.
           RemoveField (lower (te_model t)) (te_field_name t) \<in> set ?before
         \<and> AlterField (lower (te_model t)) (te_field_name t) (ForeignKey (app @ ''.'' @ parent))
             \<in> set ?after"
    using through_remove_in_operations by (auto simp: through_fk_operation_def)
  have no_remove: "\<forall>m f. RemoveField m f \<notin> set ?after"
    using no_remove_in_fk_operations by (simp del: set_map)
  have no_fk: "\<forall>m f t. AlterField m f (ForeignKey t) \<notin> set ?before"
    using no_foreign_key_in_child_operations no_foreign_key_in_through_operations
    by (simp del: set_concat)
  from plan children throughs no_remove no_fk show ?thesis by blast
qed

text \<open>
C4 at the \<open>shop\<close> registry, with \<open>LineItem.order\<close> supplied by the caller and
  \<open>OrderTagThrough.order\<close> discovered.
\<close>

theorem dependents_around_primary_key_swap_witness:
  "detect_relations shop ''Order'' ''shop'' (Some [LineItem_order]) True =
     Inr ([LineItem_order], Some [OrderTagThrough_order])
   \<and> (\<exists>before after cs.
        create_uuid_migration shop ''Order'' ''shop'' [] (Some [LineItem_order]) ''id'' True =
          Returned \<lparr>mig_dependencies = [],
                    mig_operations =
                      before @
                      [RemoveField ''order'' ''id'',
                       RenameField ''order'' ''id_uuid'' ''id'',
                       AlterField ''order'' ''id'' UUIDField_primary_key] @
                      after,
                    mig_cells = cs\<rparr>
        \<and> RemoveField ''lineitem'' ''order'' \<in> set before
        \<and> AlterField ''lineitem'' ''order'' (ForeignKey ''shop.Order'') \<in> set after
        \<and> RemoveField ''ordertagthrough'' ''order'' \<in> set before
        \<and> AlterField ''ordertagthrough'' ''order'' (ForeignKey ''shop.Order'') \<in> set after)"
proof -
  have d: "detect_relations shop ''Order'' ''shop'' (Some [LineItem_order]) True =
     Inr ([LineItem_order], Some [OrderTagThrough_order])"
    by code_simp
  have l: "lower ''Order'' = ''order''" "lower ''LineItem'' = ''lineitem''"
    "lower ''OrderTagThrough'' = ''ordertagthrough''"
    by code_simp+
  from dependents_around_primary_key_swap [OF d, of "[]" "''id''"]
  obtain before after cs where
    "create_uuid_migration shop ''Order'' ''shop'' [] (Some [LineItem_order]) ''id'' True =
       Returned \<lparr>mig_dependencies = [],
                 mig_operations =
                   before @
                   [RemoveField (lower ''Order'') ''id'',
                    RenameField (lower ''Order'') (''id'' @ ''_uuid'') ''id'',
                    AlterField (lower ''Order'') ''id'' UUIDField_primary_key] @
                   after,
                 mig_cells = cs\<rparr>"
    and "\<forall>c \<in> set [LineItem_order].
           RemoveField (lower (ce_model c)) (ce_fk_field c) \<in> set before
         \<and> AlterField (lower (ce_model c)) (ce_fk_field c) (ForeignKey (''shop'' @ ''.'' @ ''Order''))
             \<in> set after"
    and "\<forall>t \<in> set (effective_through True (Some [OrderTagThrough_order])).
           RemoveField (lower (te_model t)) (te_field_name t) \<in> set before
         \<and> AlterField (lower (te_model t)) (te_field_name t) (ForeignKey (''shop'' @ ''.'' @ ''Order''))
             \<in> set after"
    by blast
  then show ?thesis
    using d l
    by (simp add: LineItem_order_def OrderTagThrough_order_def effective_through_def) blast
qed

text \<open>
  C5. The claim says that a missing parent row under a non-nullable foreign key is
  surfaced to the operator. In the tables of \<open>orphan_apps False\<close> the foreign key
  \<open>LineItem.order\<close> is not nullable and the second row refers to the missing
  \<open>Order\<close> 7: \<open>update_foreign_keys\<close> returns normally, and that row keeps its empty
  surrogate.
\<close>

theorem orphan_of_required_key_passes_silently:
  "update_foreign_keys (orphan_apps False) ''Order'' ''LineItem'' ''shop'' ''shop'' ''order'' ''id'' =
     Inr [[(''id'', IntV 10), (''order_id'', IntV 1), (''order_uuid'', UUIDV 1001)],
          [(''id'', IntV 11), (''order_id'', IntV 7), (''order_uuid'', NoneV)]]"
  by code_simp

text \<open>
  C6. The claim says that the populate operation emitted for a dependent updates that
  dependent. On the \<open>billing\<close> registry the plan's fifth operation is the populate step
  emitted for \<open>LineItem.order\<close>, right after the surrogate field of \<open>lineitem\<close> is
  added; run with the variables the returned migration holds, it calls
  \<open>update_foreign_keys\<close> for \<open>Invoice.purchase\<close>.
\<close>

theorem billing_populate_bound_to_last_child:
  "create_uuid_migration billing ''Order'' ''billing'' [] None ''id'' True =
     Returned \<lparr>mig_dependencies = [],
               mig_operations =
                 [AddField ''order'' ''id_uuid'' UUIDField_null,
                  RunPython Lambda_generate_uuid,
                  AlterField ''order'' ''id_uuid'' UUIDField_default,
                  AddField ''lineitem'' ''order_uuid'' UUIDField_null,
                  RunPython Lambda_update_child,
                  RemoveField ''lineitem'' ''order'',
                  RenameField ''lineitem'' ''order_uuid'' ''order'',
                  AddField ''invoice'' ''purchase_uuid'' UUIDField_null,
                  RunPython Lambda_update_child,
                  RemoveField ''invoice'' ''purchase'',
                  RenameField ''invoice'' ''purchase_uuid'' ''purchase'',
                  RemoveField ''order'' ''id'',
                  RenameField ''order'' ''id_uuid'' ''id'',
                  AlterField ''order'' ''id'' UUIDField_primary_key,
                  AlterField ''lineitem'' ''order'' (ForeignKey ''billing.Order''),
                  AlterField ''invoice'' ''purchase'' (ForeignKey ''billing.Order'')],
               mig_cells =
                 \<lparr>v_parent_model = ''Order'', v_app_name = ''billing'', v_pk_field = ''id'',
                  v_through_model = None, v_field_name = None, v_through_app = None,
                  v_child_model = Some ''Invoice'', v_fk_field = Some ''purchase'',
                  v_child_app = Some ''billing''\<rparr>\<rparr>
   \<and> call_lambda
         \<lparr>v_parent_model = ''Order'', v_app_name = ''billing'', v_pk_field = ''id'',
          v_through_model = None, v_field_name = None, v_through_app = None,
          v_child_model = Some ''Invoice'', v_fk_field = Some ''purchase'',
          v_child_app = Some ''billing''\<rparr>
         Lambda_update_child =
       Inr (Update_foreign_keys ''Order'' ''Invoice'' ''billing'' ''billing'' ''purchase'' ''id'')"
  by code_simp

text \<open>
  C7. When discovery finds no foreign key, no implicit relation and no through model,
  and the caller supplies no child (\<^verbatim>\<open>None\<close> or the empty list), the plan is exactly: add
  the nullable surrogate field, populate it, tighten it, remove the old primary key,
  rename the surrogate, make it the primary key. This holds with and without
  auto-detection.
\<close>

theorem no_dependents_plan:
  assumes "find_related_models reg app parent = Inr ([], [], [])"
    and "cm = None \<or> cm = Some []"
  shows "create_uuid_migration reg parent app deps cm pk auto =
     Returned \<lparr>mig_dependencies = deps,
               mig_operations =
                 [AddField (lower parent) (pk @ ''_uuid'') UUIDField_null,
                  RunPython Lambda_generate_uuid,
                  AlterField (lower parent) (pk @ ''_uuid'') UUIDField_default,
                  RemoveField (lower parent) pk,
                  RenameField (lower parent) (pk @ ''_uuid'') pk,
                  AlterField (lower parent) pk UUIDField_primary_key],
               mig_cells =
                 \<lparr>v_parent_model = parent, v_app_name = app, v_pk_field = pk,
                  v_through_model = None, v_field_name = None, v_through_app = None,
                  v_child_model = None, v_fk_field = None, v_child_app = None\<rparr>\<rparr>"
proof (cases auto)
  case True
  from assms have "detect_relations reg parent app cm True = Inr ([], Some [])"
    by (auto simp: detect_relations_auto)
  with True show ?thesis
    by (simp add: create_Returned build_operations_eq effective_through_def)
next
  case False
  from assms(2) have "detect_relations reg parent app cm False = Inr ([], None)"
    by (auto simp: detect_relations_manual)
  with False show ?thesis
    by (simp add: create_Returned build_operations_eq effective_through_def)
qed

text \<open>
C7 at the \<open>solo\<close> registry.
\<close>

theorem no_dependents_plan_witness:
  "find_related_models solo ''solo'' ''Note'' = Inr ([], [], [])
   \<and> create_uuid_migration solo ''Note'' ''solo'' [(''solo'', ''0001_initial'')] None ''id'' True =
       Returned \<lparr>mig_dependencies = [(''solo'', ''0001_initial'')],
                 mig_operations =
                   [AddField ''note'' ''id_uuid'' UUIDField_null,
                    RunPython Lambda_generate_uuid,
                    AlterField ''note'' ''id_uuid'' UUIDField_default,
                    RemoveField ''note'' ''id'',
                    RenameField ''note'' ''id_uuid'' ''id'',
                    AlterField ''note'' ''id'' UUIDField_primary_key],
                 mig_cells =
                   \<lparr>v_parent_model = ''Note'', v_app_name = ''solo'', v_pk_field = ''id'',
                    v_through_model = None, v_field_name = None, v_through_app = None,
                    v_child_model = None, v_fk_field = None, v_child_app = None\<rparr>\<rparr>"
proof -
  have h: "find_related_models solo ''solo'' ''Note'' = Inr ([], [], [])"
    by code_simp
  have l: "lower ''Note'' = ''note''"
    by code_simp
  show ?thesis
    using h l no_dependents_plan [OF h, of None "[(''solo'', ''0001_initial'')]" "''id''" True]
    by simp
qed

text \<open>
  C8. The claim says that the report carries, for every blocked relation, the table name
  made of that relation's app, model and field names. On the \<open>desk\<close> registry the two
  blocked relations \<open>Agent.assigned\<close> and \<open>Agent.watched\<close> get the same through-model
  name, which is the key of both dictionaries: the entry of \<open>assigned\<close> is overwritten,
  and the report holds the single table name \<open>desk_agent_watched\<close>.
\<close>

theorem desk_report_has_one_table_name:
  "create_uuid_migration desk ''Ticket'' ''desk'' [] None ''id'' True =
     Raised (ValueError
       \<lparr>em_parent_model = ''Ticket'',
        em_relations = [(1, ''desk'', ''Agent'', ''assigned''), (2, ''desk'', ''Agent'', ''watched'')],
        em_through_models =
          [(''AgentAgentThrough'',
            \<lparr>mc_through_model_name = ''AgentAgentThrough'', mc_source_model = ''Agent'',
             mc_source_app = ''desk'', mc_target_model = ''Agent'', mc_target_app = ''desk''\<rparr>)],
        em_migration_files =
          [(''AgentAgentThrough'',
            \<lparr>mh_through_model_name = ''AgentAgentThrough'', mh_source_app = ''desk'',
             mh_source_model = ''Agent'', mh_target_app = ''desk'', mh_target_model = ''Agent'',
             mh_automatic_table_name = ''desk_agent_watched'', mh_field_name = ''watched''\<rparr>)]\<rparr>) []"
  by code_simp

text \<open>
  C9, as amended. With auto-detection disabled, \<open>create_uuid_migration\<close> consults no
  registry, raises nothing and returns the plan for the caller's children alone (none
  when \<^verbatim>\<open>child_models\<close> is \<^verbatim>\<open>None\<close>), without any through-model step.
\<close>

theorem manual_mode_always_returns:
  "\<exists>cs.
     create_uuid_migration reg parent app deps cm pk False =
       Returned \<lparr>mig_dependencies = deps,
                 mig_operations =
                   [AddField (lower parent) (pk @ ''_uuid'') UUIDField_null,
                    RunPython Lambda_generate_uuid,
                    AlterField (lower parent) (pk @ ''_uuid'') UUIDField_default]
                   @ concat (map child_operations (case cm of None \<Rightarrow> [] | Some supplied \<Rightarrow> supplied))
                   @ [RemoveField (lower parent) pk,
                      RenameField (lower parent) (pk @ ''_uuid'') pk,
                      AlterField (lower parent) pk UUIDField_primary_key]
                   @ map (child_fk_operation app parent)
                       (case cm of None \<Rightarrow> [] | Some supplied \<Rightarrow> supplied),
                 mig_cells = cs\<rparr>"
  by (simp add: create_Returned [OF detect_relations_manual] build_operations_eq
        effective_through_def)

text \<open>
  C9 as stated fails: \<open>Post\<close> of the \<open>blog\<close> registry has an implicit many-to-many
  relation, and with auto-detection disabled the call returns a plan.
\<close>

theorem manual_mode_skips_validation:
  "find_related_models blog ''blog'' ''Post'' =
     Inr ([], [\<lparr>ie_model = ''Post'', ie_app_name = ''blog'', ie_field_name = ''labels'',
                 ie_related = Some (''Label'', ''blog'')\<rparr>], [])
   \<and> create_uuid_migration blog ''Post'' ''blog'' [] None ''id'' False =
       Returned \<lparr>mig_dependencies = [],
                 mig_operations =
                   [AddField ''post'' ''id_uuid'' UUIDField_null,
                    RunPython Lambda_generate_uuid,
                    AlterField ''post'' ''id_uuid'' UUIDField_default,
                    RemoveField ''post'' ''id'',
                    RenameField ''post'' ''id_uuid'' ''id'',
                    AlterField ''post'' ''id'' UUIDField_primary_key],
                 mig_cells =
                   \<lparr>v_parent_model = ''Post'', v_app_name = ''blog'', v_pk_field = ''id'',
                    v_through_model = None, v_field_name = None, v_through_app = None,
                    v_child_model = None, v_fk_field = None, v_child_app = None\<rparr>\<rparr>"
  by code_simp

text \<open>
  C10. With auto-detection enabled and no implicit relation found, the child steps
  (5 and 9) run over the caller's list when one is supplied and over the discovered
  foreign keys only when \<^verbatim>\<open>child_models\<close> is \<^verbatim>\<open>None\<close>; the through-model steps (4 and 10)
  run over the discovered through models in both cases.
\<close>

theorem supplied_children_replace_discovered:
  assumes "find_related_models reg app parent = Inr (fk, [], thr)"
  shows "\<exists>cs.
     create_uuid_migration reg parent app deps cm pk True =
       Returned \<lparr>mig_dependencies = deps,
                 mig_operations =
                   [AddField (lower parent) (pk @ ''_uuid'') UUIDField_null,
                    RunPython Lambda_generate_uuid,
                    AlterField (lower parent) (pk @ ''_uuid'') UUIDField_default]
                   @ concat (map through_operations thr)
                   @ concat (map child_operations (case cm of None \<Rightarrow> fk | Some supplied \<Rightarrow> supplied))
                   @ [RemoveField (lower parent) pk,
                      RenameField (lower parent) (pk @ ''_uuid'') pk,
                      AlterField (lower parent) pk UUIDField_primary_key]
                   @ map (child_fk_operation app parent)
                       (case cm of None \<Rightarrow> fk | Some supplied \<Rightarrow> supplied)
                   @ map (through_fk_operation app parent) thr,
                 mig_cells = cs\<rparr>"
proof -
  from assms have "detect_relations reg parent app cm True =
      Inr (case cm of None \<Rightarrow> fk | Some c \<Rightarrow> c, Some thr)"
    by (simp add: detect_relations_auto)
  then show ?thesis
    by (simp add: create_Returned build_operations_eq effective_through_def)
qed

text \<open>
C10 at the \<open>shop\<close> registry, with \<open>LineItem.order\<close> supplied.
\<close>

theorem supplied_children_replace_discovered_witness:
  "find_related_models shop ''shop'' ''Order'' =
     Inr ([LineItem_order, OrderTagThrough_order_fk], [], [OrderTagThrough_order])
   \<and> (\<exists>cs. create_uuid_migration shop ''Order'' ''shop'' [] (Some [LineItem_order]) ''id'' True =
       Returned \<lparr>mig_dependencies = [],
                 mig_operations =
                   [AddField ''order'' ''id_uuid'' UUIDField_null,
                    RunPython Lambda_generate_uuid,
                    AlterField ''order'' ''id_uuid'' UUIDField_default,
                    AddField ''ordertagthrough'' ''order_uuid'' UUIDField_null,
                    RunPython Lambda_update_through,
                    RemoveField ''ordertagthrough'' ''order'',
                    RenameField ''ordertagthrough'' ''order_uuid'' ''order'',
                    AddField ''lineitem'' ''order_uuid'' UUIDField_null,
                    RunPython Lambda_update_child,
                    RemoveField ''lineitem'' ''order'',
                    RenameField ''lineitem'' ''order_uuid'' ''order'',
                    RemoveField ''order'' ''id'',
                    RenameField ''order'' ''id_uuid'' ''id'',
                    AlterField ''order'' ''id'' UUIDField_primary_key,
                    AlterField ''lineitem'' ''order'' (ForeignKey ''shop.Order''),
                    AlterField ''ordertagthrough'' ''order'' (ForeignKey ''shop.Order'')],
                 mig_cells = cs\<rparr>)"
proof -
  have h: "find_related_models shop ''shop'' ''Order'' =
     Inr ([LineItem_order, OrderTagThrough_order_fk], [], [OrderTagThrough_order])"
    by code_simp
  have l: "lower ''Order'' = ''order''" "lower ''LineItem'' = ''lineitem''"
    "lower ''OrderTagThrough'' = ''ordertagthrough''"
    by code_simp+
  show ?thesis
    using h l
      supplied_children_replace_discovered [OF h, of "[]" "Some [LineItem_order]" "''id''"]
    by (simp add: LineItem_order_def OrderTagThrough_order_def child_operations_def
          through_operations_def child_fk_operation_def through_fk_operation_def Let_def)
qed

end
